theory Spec2Isabelle
  imports Complex_Main
begin

section \<open>Python values used by \<open>_xsleep.py\<close>\<close>

subsection \<open>Exceptions\<close>

text \<open>
  The exceptions that the modelled paths raise. \<open>OSError\<close> carries its message and
  \<open>NameError\<close> the undefined name.
\<close>

datatype py_error =
  OSError string | NameError string | ValueError | IndexError | OverflowError
  | ZeroDivisionError

subsection \<open>Floats\<close>

text \<open>
  A Python \<open>float\<close> is an IEEE 754 double: a finite value, one of the two zeros, an
  infinity, or NaN. \<open>Finite 0\<close> is \<open>0.0\<close> and \<open>NegZero\<close> is \<open>-0.0\<close>.
\<close>

datatype pyfloat = Finite rat | NegZero | PosInf | NegInf | NaN

text \<open>\<open>log2_nat n\<close> is the position of the highest set bit of \<open>n\<close>.\<close>

fun log2_nat :: "nat \<Rightarrow> nat" where
  "log2_nat n = (if n < 2 then 0 else Suc (log2_nat (n div 2)))"

declare log2_nat.simps [simp del]

text \<open>For \<open>m > 0\<close>, the integer \<open>e\<close> with \<open>2^e \<le> m < 2^(e+1)\<close>.\<close>

definition floor_log2 :: "rat \<Rightarrow> int" where
  "floor_log2 m =
     (if 1 \<le> m then int (log2_nat (nat \<lfloor>m\<rfloor>))
      else if nat \<lceil>1 / m\<rceil> \<le> 1 then 0
      else - int (Suc (log2_nat (nat \<lceil>1 / m\<rceil> - 1))))"

definition pow2 :: "int \<Rightarrow> rat" where
  "pow2 k = (if 0 \<le> k then 2 ^ nat k else 1 / 2 ^ nat (- k))"

text \<open>Rounding to the nearest integer, a tie going to the even one.\<close>

definition round_half_even :: "rat \<Rightarrow> int" where
  "round_half_even x =
     (if x - of_int \<lfloor>x\<rfloor> < 1 / 2 then \<lfloor>x\<rfloor>
      else if 1 / 2 < x - of_int \<lfloor>x\<rfloor> then \<lfloor>x\<rfloor> + 1
      else if even \<lfloor>x\<rfloor> then \<lfloor>x\<rfloor> else \<lfloor>x\<rfloor> + 1)"

text \<open>
  The binary exponent at which a magnitude \<open>m > 0\<close> is rounded (never below that of
  the subnormals), and its 53-bit significand after rounding.
\<close>

definition double_exp :: "rat \<Rightarrow> int" where
  "double_exp m = max (floor_log2 m) (- 1022)"

definition double_mant :: "rat \<Rightarrow> int" where
  "double_mant m = round_half_even (m / pow2 (double_exp m - 52))"

text \<open>
  The double nearest to an exact value, ties to even: beyond the largest double the
  result is an infinity, below the smallest subnormal a zero of the value's sign.
\<close>

definition round_to_double :: "rat \<Rightarrow> pyfloat" where
  "round_to_double r =
     (if r = 0 then Finite 0
      else if 1024 \<le> double_exp \<bar>r\<bar> \<or> (double_exp \<bar>r\<bar> = 1023 \<and> 2 ^ 53 \<le> double_mant \<bar>r\<bar>)
        then (if 0 < r then PosInf else NegInf)
      else if double_mant \<bar>r\<bar> = 0 then (if 0 < r then Finite 0 else NegZero)
      else Finite ((if 0 < r then 1 else - 1) * of_int (double_mant \<bar>r\<bar>)
                   * pow2 (double_exp \<bar>r\<bar> - 52)))"

fun float_val :: "pyfloat \<Rightarrow> rat" where
  "float_val (Finite r) = r"
| "float_val _ = 0"

fun sign_bit :: "pyfloat \<Rightarrow> bool" where
  "sign_bit (Finite r) = (r < 0)"
| "sign_bit NegZero = True"
| "sign_bit NegInf = True"
| "sign_bit _ = False"

definition is_zero :: "pyfloat \<Rightarrow> bool" where
  "is_zero x \<longleftrightarrow> x = Finite 0 \<or> x = NegZero"

definition is_inf :: "pyfloat \<Rightarrow> bool" where
  "is_inf x \<longleftrightarrow> x = PosInf \<or> x = NegInf"

definition signed_zero :: "bool \<Rightarrow> pyfloat" where
  "signed_zero s = (if s then NegZero else Finite 0)"

definition signed_inf :: "bool \<Rightarrow> pyfloat" where
  "signed_inf s = (if s then NegInf else PosInf)"

fun fneg :: "pyfloat \<Rightarrow> pyfloat" where
  "fneg (Finite r) = (if r = 0 then NegZero else Finite (- r))"
| "fneg NegZero = Finite 0"
| "fneg PosInf = NegInf"
| "fneg NegInf = PosInf"
| "fneg NaN = NaN"

text \<open>Float multiplication, addition and subtraction: they never raise.\<close>

definition fmul :: "pyfloat \<Rightarrow> pyfloat \<Rightarrow> pyfloat" where
  "fmul x y =
     (if x = NaN \<or> y = NaN then NaN
      else if is_inf x then (if is_zero y then NaN else signed_inf (sign_bit x \<noteq> sign_bit y))
      else if is_inf y then (if is_zero x then NaN else signed_inf (sign_bit x \<noteq> sign_bit y))
      else if is_zero x \<or> is_zero y then signed_zero (sign_bit x \<noteq> sign_bit y)
      else round_to_double (float_val x * float_val y))"

definition fadd :: "pyfloat \<Rightarrow> pyfloat \<Rightarrow> pyfloat" where
  "fadd x y =
     (if x = NaN \<or> y = NaN then NaN
      else if is_inf x then (if is_inf y \<and> x \<noteq> y then NaN else x)
      else if is_inf y then y
      else if is_zero x \<and> is_zero y then (if x = NegZero \<and> y = NegZero then NegZero else Finite 0)
      else if float_val x + float_val y = 0 then Finite 0
      else round_to_double (float_val x + float_val y))"

definition fsub :: "pyfloat \<Rightarrow> pyfloat \<Rightarrow> pyfloat" where
  "fsub x y = fadd x (fneg y)"

text \<open>Float division raises ZeroDivisionError on a zero divisor, whatever the dividend.\<close>

definition fdiv :: "pyfloat \<Rightarrow> pyfloat \<Rightarrow> py_error + pyfloat" where
  "fdiv x y =
     (if is_zero y then Inl ZeroDivisionError
      else Inr (if x = NaN \<or> y = NaN then NaN
                else if is_inf x then (if is_inf y then NaN
                                       else signed_inf (sign_bit x \<noteq> sign_bit y))
                else if is_inf y then signed_zero (sign_bit x \<noteq> sign_bit y)
                else if is_zero x then signed_zero (sign_bit x \<noteq> sign_bit y)
                else round_to_double (float_val x / float_val y)))"

text \<open>
  The conversion of an \<open>int\<close> that meets a \<open>float\<close> in arithmetic: the nearest double,
  or OverflowError when that would be an infinity.
\<close>

definition int_to_float :: "int \<Rightarrow> py_error + pyfloat" where
  "int_to_float i =
     (if is_inf (round_to_double (of_int i)) then Inl OverflowError
      else Inr (round_to_double (of_int i)))"

subsection \<open>Numbers\<close>

text \<open>
  A duration reaches the library as a Python \<open>int\<close> or a Python \<open>float\<close>. The two are
  kept apart because arithmetic and \<open>str\<close> treat them differently (\<open>1 * 60\<close> is the
  \<open>int\<close> 60, \<open>1 / 1000\<close> is a \<open>float\<close>).
\<close>

datatype pynum = PyInt int | PyFloat pyfloat

text \<open>
  \<open>x * y\<close>, \<open>x + y\<close>, \<open>x - y\<close>: exact on two \<open>int\<close>s; otherwise the \<open>int\<close> operand is
  converted and the operation is the float one.
\<close>

definition float_op ::
  "(pyfloat \<Rightarrow> pyfloat \<Rightarrow> pyfloat) \<Rightarrow> pynum \<Rightarrow> pynum \<Rightarrow> py_error + pynum" where
  "float_op f x y =
     (case (case x of PyInt a \<Rightarrow> int_to_float a | PyFloat a \<Rightarrow> Inr a) of
        Inl err \<Rightarrow> Inl err
      | Inr a \<Rightarrow>
          (case (case y of PyInt b \<Rightarrow> int_to_float b | PyFloat b \<Rightarrow> Inr b) of
             Inl err \<Rightarrow> Inl err
           | Inr b \<Rightarrow> Inr (PyFloat (f a b))))"

fun py_mul :: "pynum \<Rightarrow> pynum \<Rightarrow> py_error + pynum" where
  "py_mul (PyInt a) (PyInt b) = Inr (PyInt (a * b))"
| "py_mul x y = float_op fmul x y"

fun py_add :: "pynum \<Rightarrow> pynum \<Rightarrow> py_error + pynum" where
  "py_add (PyInt a) (PyInt b) = Inr (PyInt (a + b))"
| "py_add x y = float_op fadd x y"

fun py_sub :: "pynum \<Rightarrow> pynum \<Rightarrow> py_error + pynum" where
  "py_sub (PyInt a) (PyInt b) = Inr (PyInt (a - b))"
| "py_sub x y = float_op fsub x y"

text \<open>
  \<open>x / y\<close> is true division and always gives a \<open>float\<close>. On two \<open>int\<close>s it is the
  correctly rounded quotient, with OverflowError when that is too large for a double;
  otherwise the \<open>int\<close> operand is converted and the division is the float one.
\<close>

fun py_truediv :: "pynum \<Rightarrow> pynum \<Rightarrow> py_error + pynum" where
  "py_truediv (PyInt a) (PyInt b) =
     (if b = 0 then Inl ZeroDivisionError
      else if is_inf (round_to_double (of_int a / of_int b)) then Inl OverflowError
      else Inr (PyFloat (round_to_double (of_int a / of_int b))))"
| "py_truediv x y =
     (case (case x of PyInt a \<Rightarrow> int_to_float a | PyFloat a \<Rightarrow> Inr a) of
        Inl err \<Rightarrow> Inl err
      | Inr a \<Rightarrow>
          (case (case y of PyInt b \<Rightarrow> int_to_float b | PyFloat b \<Rightarrow> Inr b) of
             Inl err \<Rightarrow> Inl err
           | Inr b \<Rightarrow> (case fdiv a b of Inl err \<Rightarrow> Inl err | Inr q \<Rightarrow> Inr (PyFloat q))))"

text \<open>
  \<open>int(x)\<close> on a number: the identity on an \<open>int\<close>, truncation towards zero on a finite
  \<open>float\<close>, OverflowError on an infinity and ValueError on NaN.
\<close>

definition trunc :: "rat \<Rightarrow> int" where
  "trunc r = (if 0 \<le> r then \<lfloor>r\<rfloor> else \<lceil>r\<rceil>)"

fun py_int :: "pynum \<Rightarrow> py_error + int" where
  "py_int (PyInt i) = Inr i"
| "py_int (PyFloat (Finite r)) = Inr (trunc r)"
| "py_int (PyFloat NegZero) = Inr 0"
| "py_int (PyFloat PosInf) = Inl OverflowError"
| "py_int (PyFloat NegInf) = Inl OverflowError"
| "py_int (PyFloat NaN) = Inl ValueError"

subsection \<open>Strings\<close>

definition newline :: char where
  "newline = CHR 0x0A"

text \<open>\<open>s.startswith(p)\<close>\<close>

definition startswith :: "string \<Rightarrow> string \<Rightarrow> bool" where
  "startswith s p \<longleftrightarrow> take (length p) s = p"

text \<open>\<open>p in s\<close> for strings: \<open>p\<close> occurs in \<open>s\<close> as a contiguous run.\<close>

fun contains :: "string \<Rightarrow> string \<Rightarrow> bool" where
  "contains [] p = (p = [])"
| "contains (c # cs) p = (startswith (c # cs) p \<or> contains cs p)"

text \<open>
  \<open>str(i)\<close> for an \<open>int\<close>: decimal digits, with a minus sign when negative. The limit
  that newer interpreters can put on the number of digits is not modelled.
\<close>

definition digit_char :: "nat \<Rightarrow> char" where
  "digit_char d = ''0123456789'' ! d"

fun str_nat :: "nat \<Rightarrow> string" where
  "str_nat n = (if n < 10 then [digit_char n] else str_nat (n div 10) @ [digit_char (n mod 10)])"

declare str_nat.simps [simp del]

definition str_int :: "int \<Rightarrow> string" where
  "str_int i = (if i < 0 then CHR ''-'' # str_nat (nat (- i)) else str_nat (nat i))"

text \<open>
  Whitespace as \<open>str.strip()\<close> and \<open>str.split()\<close> see it, for ASCII text: tab, line feed,
  vertical tab, form feed, carriage return, the separators 0x1C to 0x1F, and space.
\<close>

definition is_space :: "char \<Rightarrow> bool" where
  "is_space c \<longleftrightarrow> (of_char c :: nat) \<in> {9, 10, 11, 12, 13, 28, 29, 30, 31, 32}"

definition py_strip :: "string \<Rightarrow> string" where
  "py_strip s = rev (dropWhile is_space (rev (dropWhile is_space s)))"

text \<open>\<open>s.split()\<close>: the maximal runs of non-whitespace, in order.\<close>

fun split_acc :: "string \<Rightarrow> string \<Rightarrow> string list" where
  "split_acc cur [] = (if cur = [] then [] else [cur])"
| "split_acc cur (c # cs) =
     (if is_space c then (if cur = [] then split_acc [] cs else cur # split_acc [] cs)
      else split_acc (cur @ [c]) cs)"

definition py_split :: "string \<Rightarrow> string list" where
  "py_split s = split_acc [] s"

text \<open>
  A file opened in text mode is read with universal newlines: a carriage return, alone
  or followed by a line feed, reads as one line feed.
\<close>

fun universal_newlines :: "string \<Rightarrow> string" where
  "universal_newlines [] = []"
| "universal_newlines [c] = (if c = CHR 0x0D then [newline] else [c])"
| "universal_newlines (c # d # cs) =
     (if c = CHR 0x0D then
        (if d = newline then newline # universal_newlines cs
         else newline # universal_newlines (d # cs))
      else c # universal_newlines (d # cs))"

text \<open>
  Splitting at line feeds: each line keeps its line feed (the last one has none when
  the text does not end in one).
\<close>

fun split_lines :: "string \<Rightarrow> string list" where
  "split_lines [] = []"
| "split_lines (c # cs) =
     (if c = newline then [c] # split_lines cs
      else (case split_lines cs of [] \<Rightarrow> [[c]] | l # ls \<Rightarrow> (c # l) # ls))"

text \<open>Iterating over a text file yields the lines of its text as read.\<close>

definition file_lines :: "string \<Rightarrow> string list" where
  "file_lines text = split_lines (universal_newlines text)"

text \<open>\<open>f.readline()\<close> on a freshly opened file: the first line, empty at end of file.\<close>

definition readline :: "string \<Rightarrow> string" where
  "readline text = (case file_lines text of [] \<Rightarrow> [] | l # _ \<Rightarrow> l)"

text \<open>
  \<open>int(s)\<close> on an ASCII string: leading and trailing tab, line feed, vertical tab, form
  feed, carriage return and space are dropped, one sign is allowed, then decimal digits,
  where single underscores may separate digits.
\<close>

definition is_c_space :: "char \<Rightarrow> bool" where
  "is_c_space c \<longleftrightarrow> (of_char c :: nat) \<in> {9, 10, 11, 12, 13, 32}"

definition is_digit :: "char \<Rightarrow> bool" where
  "is_digit c \<longleftrightarrow> c \<in> set ''0123456789''"

fun digits_ok :: "string \<Rightarrow> bool" where
  "digits_ok [] = False"
| "digits_ok [c] = is_digit c"
| "digits_ok (c # d # cs) =
     (is_digit c \<and> (if d = CHR ''_'' then digits_ok cs else digits_ok (d # cs)))"

definition dec_val :: "string \<Rightarrow> nat" where
  "dec_val s = foldl (\<lambda>a c. if c = CHR ''_'' then a else 10 * a + (of_char c - 48)) 0 s"

definition py_int_str :: "string \<Rightarrow> py_error + int" where
  "py_int_str s =
     (let t = rev (dropWhile is_c_space (rev (dropWhile is_c_space s)));
          (neg, body) = (case t of
                           [] \<Rightarrow> (False, t)
                         | c # r \<Rightarrow> if c = CHR ''-'' then (True, r)
                                   else if c = CHR ''+'' then (False, r)
                                   else (False, t))
      in if digits_ok body
         then Inr (if neg then - int (dec_val body) else int (dec_val body))
         else Inl ValueError)"

section \<open>The host and the observable world\<close>

text \<open>
  Everything the module reads from its host: \<open>sys.platform\<close>, \<open>os.environ\<close>, the
  dynamic loader behind \<open>ctypes.CDLL\<close>, the text files under \<open>/proc\<close>, \<open>sysctlbyname\<close>,
  and the interpreter's own \<open>repr\<close> and \<open>float\<close> for floats.
\<close>

record env =
  platform :: string
  environ :: "string \<rightharpoonup> string"
  dlopen_error :: "string \<Rightarrow> string option"
    \<comment> \<open>\<open>None\<close>: the library loads; \<open>Some m\<close>: \<open>ctypes.CDLL\<close> raises \<open>OSError(m)\<close>\<close>
  file_text :: "string \<Rightarrow> string + string"
    \<comment> \<open>\<open>Inl m\<close>: \<open>open\<close> raises \<open>OSError(m)\<close>; \<open>Inr t\<close>: the text of the file\<close>
  sysctl_value :: "string \<Rightarrow> int option"
    \<comment> \<open>\<open>None\<close>: \<open>sysctlbyname\<close> returns -1 and leaves the buffer; \<open>Some v\<close>: it returns 0 and stores \<open>v\<close>\<close>
  float_repr :: "pyfloat \<Rightarrow> string"
    \<comment> \<open>\<open>str(x)\<close> for a float \<open>x\<close>\<close>
  float_parse :: "string \<Rightarrow> pyfloat option"
    \<comment> \<open>\<open>float(s)\<close>; \<open>None\<close>: it raises ValueError\<close>

datatype lib = Lib string

text \<open>
  The bound sleep primitive: \<open>kernel32.Sleep\<close>, or \<open>usleep\<close> of the C library that was
  loaded. A loaded library is taken to export the symbols looked up on it.
\<close>

datatype native_fn = Kernel32_Sleep | Libc_usleep lib

text \<open>
  What the module does to the outside: the characters written to standard output, the
  library names handed to \<open>ctypes.CDLL\<close>, the calls of the bound sleep function with
  the Python integer passed to it, and the value that the C function receives in each
  of these calls, each in order of occurrence.
\<close>

record world =
  stdout :: string
  dl_loads :: "string list"
  native_sleeps :: "(native_fn \<times> int) list"
  c_sleep_args :: "int list"

definition py_str :: "env \<Rightarrow> pynum \<Rightarrow> string" where
  "py_str e x = (case x of PyInt i \<Rightarrow> str_int i | PyFloat r \<Rightarrow> float_repr e r)"

text \<open>\<open>print(s, end=t)\<close>\<close>

definition py_print :: "string \<Rightarrow> string \<Rightarrow> world \<Rightarrow> world" where
  "py_print s t w = w\<lparr>stdout := stdout w @ s @ t\<rparr>"

text \<open>\<open>ctypes.CDLL(name)\<close>\<close>

definition CDLL :: "env \<Rightarrow> string \<Rightarrow> world \<Rightarrow> (py_error + lib) \<times> world" where
  "CDLL e name w =
     (case dlopen_error e name of
        Some m \<Rightarrow> (Inl (OSError m), w\<lparr>dl_loads := dl_loads w @ [name]\<rparr>)
      | None \<Rightarrow> (Inr (Lib name), w\<lparr>dl_loads := dl_loads w @ [name]\<rparr>))"

section \<open>Binding the sleep primitive\<close>

text \<open>\<open>_get_sleep_func()\<close>: the pair \<open>(sleep_func, sleep_unit)\<close>, or the exception raised.\<close>

definition get_sleep_func :: "env \<Rightarrow> world \<Rightarrow> (py_error + native_fn \<times> int) \<times> world" where
  "get_sleep_func e w =
     (if startswith (platform e) ''win32'' then (Inr (Kernel32_Sleep, 1000), w)
      else if startswith (platform e) ''linux'' \<or> startswith (platform e) ''darwin'' then
        (let libc_name = (if startswith (platform e) ''darwin'' then ''libc.dylib''
                          else ''libc.so.6'')
         in case CDLL e libc_name w of
              (Inr libc, w1) \<Rightarrow> (Inr (Libc_usleep libc, 1000000), w1)
            | (Inl (OSError m), w1) \<Rightarrow>
                (case CDLL e ''/usr/lib/libc.dylib'' w1 of
                   (Inr libc, w2) \<Rightarrow> (Inr (Libc_usleep libc, 1000000), w2)
                 | (Inl err, w2) \<Rightarrow> (Inl err, w2))
            | (Inl err, w1) \<Rightarrow> (Inl err, w1))
      else (Inl (OSError ''Unsupported operating system.''), w))"

text \<open>An \<open>XSleep\<close> object: the two attributes set by \<open>__init__\<close>.\<close>

record xsleep =
  sleep_func :: native_fn
  sleep_unit :: int

text \<open>\<open>XSleep.__init__\<close>\<close>

definition XSleep_init :: "env \<Rightarrow> world \<Rightarrow> (py_error + xsleep) \<times> world" where
  "XSleep_init e w =
     (case get_sleep_func e w of
        (Inl err, w1) \<Rightarrow> (Inl err, w1)
      | (Inr (f, u), w1) \<Rightarrow> (Inr \<lparr>sleep_func = f, sleep_unit = u\<rparr>, w1))"

section \<open>Sleeping\<close>

text \<open>
  \<open>self.sleep_func(t)\<close>. On Linux and Darwin the bound function is
  \<open>lambda t: usleep_func(int(t))\<close>, and \<open>int\<close> of an \<open>int\<close> is that \<open>int\<close>. The C
  parameter is declared \<open>c_uint\<close> for \<open>usleep\<close> and \<open>c_ulong\<close> (a DWORD) for \<open>Sleep\<close>,
  both 32 bits wide and unsigned; ctypes passes a Python integer to them reduced
  modulo \<open>2^32\<close>, without a range check.
\<close>

definition call_sleep_func :: "native_fn \<Rightarrow> int \<Rightarrow> world \<Rightarrow> world" where
  "call_sleep_func f t w =
     w\<lparr>native_sleeps := native_sleeps w @ [(f, t)],
       c_sleep_args := c_sleep_args w @ [t mod 2 ^ 32]\<rparr>"

text \<open>
  The f-string that \<open>_sleep\<close> prints before the wait:
  \<^verbatim>\<open>Sleeping for {seconds} seconds ({time_to_sleep} {unit name})...\<close>
\<close>

definition sleeping_message :: "env \<Rightarrow> xsleep \<Rightarrow> pynum \<Rightarrow> int \<Rightarrow> string" where
  "sleeping_message e self secs time_to_sleep =
     ''Sleeping for '' @ py_str e secs @ '' seconds ('' @ str_int time_to_sleep @ '' ''
     @ (if sleep_unit self = 1000 then ''milliseconds'' else ''microseconds'') @ '')...''"

text \<open>
  The statements of \<open>_sleep\<close> that follow the computation of \<open>time_to_sleep\<close>: the
  progress line, the call of the bound function, and \<open>Awake!\<close>.
\<close>

definition sleep_body :: "env \<Rightarrow> xsleep \<Rightarrow> pynum \<Rightarrow> int \<Rightarrow> world \<Rightarrow> world" where
  "sleep_body e self secs time_to_sleep w =
     py_print ''Awake!'' [newline]
       (call_sleep_func (sleep_func self) time_to_sleep
          (py_print (sleeping_message e self secs time_to_sleep) [newline] w))"

text \<open>
  \<open>XSleep._sleep\<close>. Its first statement, \<open>int(seconds * self.sleep_unit)\<close>, can raise;
  nothing has been printed or called then.
\<close>

definition XSleep_sleep :: "env \<Rightarrow> xsleep \<Rightarrow> pynum \<Rightarrow> world \<Rightarrow> (py_error + unit) \<times> world" where
  "XSleep_sleep e self secs w =
     (case py_mul secs (PyInt (sleep_unit self)) of
        Inl err \<Rightarrow> (Inl err, w)
      | Inr product \<Rightarrow>
          (case py_int product of
             Inl err \<Rightarrow> (Inl err, w)
           | Inr time_to_sleep \<Rightarrow> (Inr (), sleep_body e self secs time_to_sleep w)))"

definition milliseconds :: "env \<Rightarrow> xsleep \<Rightarrow> pynum \<Rightarrow> world \<Rightarrow> (py_error + unit) \<times> world" where
  "milliseconds e self ms w =
     (case py_truediv ms (PyInt 1000) of
        Inl err \<Rightarrow> (Inl err, w)
      | Inr secs \<Rightarrow> XSleep_sleep e self secs w)"

definition seconds :: "env \<Rightarrow> xsleep \<Rightarrow> pynum \<Rightarrow> world \<Rightarrow> (py_error + unit) \<times> world" where
  "seconds e self secs w = XSleep_sleep e self secs w"

definition minutes :: "env \<Rightarrow> xsleep \<Rightarrow> pynum \<Rightarrow> world \<Rightarrow> (py_error + unit) \<times> world" where
  "minutes e self mins w =
     (case py_mul mins (PyInt 60) of
        Inl err \<Rightarrow> (Inl err, w)
      | Inr secs \<Rightarrow> XSleep_sleep e self secs w)"

definition hours :: "env \<Rightarrow> xsleep \<Rightarrow> pynum \<Rightarrow> world \<Rightarrow> (py_error + unit) \<times> world" where
  "hours e self hrs w =
     (case py_mul hrs (PyInt 3600) of
        Inl err \<Rightarrow> (Inl err, w)
      | Inr secs \<Rightarrow> XSleep_sleep e self secs w)"

text \<open>
  \<open>random.uniform(a, b)\<close> is \<open>a + (b - a) * random()\<close>; \<open>u\<close> is the value of the double
  that \<open>random()\<close> returns, which lies in \<open>[0, 1)\<close>.
\<close>

definition uniform :: "pynum \<Rightarrow> pynum \<Rightarrow> rat \<Rightarrow> py_error + pynum" where
  "uniform a b u =
     (case py_sub b a of
        Inl err \<Rightarrow> Inl err
      | Inr width \<Rightarrow>
          (case py_mul width (PyFloat (Finite u)) of
             Inl err \<Rightarrow> Inl err
           | Inr offset \<Rightarrow> py_add a offset))"

text \<open>\<open>XSleep.get_random_delay\<close>\<close>

definition get_random_delay ::
  "env \<Rightarrow> xsleep \<Rightarrow> pynum \<Rightarrow> pynum \<Rightarrow> rat \<Rightarrow> world \<Rightarrow> (py_error + unit) \<times> world" where
  "get_random_delay e self min_seconds max_seconds u w =
     (case uniform min_seconds max_seconds u of
        Inl err \<Rightarrow> (Inl err, w)
      | Inr random_delay \<Rightarrow> XSleep_sleep e self random_delay w)"

text \<open>
  \<open>XSleep.print_message_with_delay\<close>: the loop over the characters, then \<open>print()\<close>. An
  exception of \<open>_sleep\<close> ends the loop after the character has been written.
\<close>

fun print_chars ::
  "env \<Rightarrow> xsleep \<Rightarrow> string \<Rightarrow> pynum \<Rightarrow> world \<Rightarrow> (py_error + unit) \<times> world" where
  "print_chars e self [] delay_seconds w = (Inr (), w)"
| "print_chars e self (char # rest) delay_seconds w =
     (case XSleep_sleep e self delay_seconds (py_print [char] [] w) of
        (Inl err, w1) \<Rightarrow> (Inl err, w1)
      | (Inr u, w1) \<Rightarrow> print_chars e self rest delay_seconds w1)"

definition print_message_with_delay ::
  "env \<Rightarrow> xsleep \<Rightarrow> string \<Rightarrow> pynum \<Rightarrow> world \<Rightarrow> (py_error + unit) \<times> world" where
  "print_message_with_delay e self message delay_seconds w =
     (case print_chars e self message delay_seconds w of
        (Inl err, w1) \<Rightarrow> (Inl err, w1)
      | (Inr u, w1) \<Rightarrow> (Inr (), py_print [] [newline] w1))"

section \<open>Introspection queries\<close>

text \<open>The counting loop of \<open>get_cpu_count\<close> over the lines of \<open>/proc/cpuinfo\<close>.\<close>

fun count_processors :: "string list \<Rightarrow> int \<Rightarrow> int" where
  "count_processors [] cpu_count = cpu_count"
| "count_processors (line # rest) cpu_count =
     count_processors rest
       (if startswith (py_strip line) ''processor'' then cpu_count + 1 else cpu_count)"

text \<open>
  \<open>XSleep.get_cpu_count\<close>. On Darwin the result of \<open>sysctlbyname\<close> is not looked at:
  \<open>num_cpu\<close> keeps its initial 0 when the call fails.
\<close>

definition get_cpu_count :: "env \<Rightarrow> world \<Rightarrow> (py_error + int) \<times> world" where
  "get_cpu_count e w =
     (if startswith (platform e) ''win32'' then
        (case environ e ''NUMBER_OF_PROCESSORS'' of
           None \<Rightarrow> (Inr 1, w)
         | Some s \<Rightarrow> (py_int_str s, w))
      else if startswith (platform e) ''linux'' then
        (case file_text e ''/proc/cpuinfo'' of
           Inl m \<Rightarrow> (Inl (OSError m), w)
         | Inr text \<Rightarrow> (Inr (count_processors (file_lines text) 0), w))
      else if startswith (platform e) ''darwin'' then
        (case CDLL e ''libc.dylib'' w of
           (Inl err, w1) \<Rightarrow> (Inl err, w1)
         | (Inr libc, w1) \<Rightarrow>
             (Inr (case sysctl_value e ''hw.ncpu'' of None \<Rightarrow> 0 | Some v \<Rightarrow> v), w1))
      else (Inr 1, w))"

text \<open>
  \<open>XSleep.get_uptime\<close>; \<open>None\<close> is Python's \<open>None\<close>. The module imports neither \<open>time\<close>
  nor \<open>psutil\<close>, so evaluating \<open>time.time()\<close> raises NameError: on Darwin once
  \<open>sysctlbyname\<close> has succeeded, on Windows at once.
\<close>

definition get_uptime :: "env \<Rightarrow> world \<Rightarrow> (py_error + pynum option) \<times> world" where
  "get_uptime e w =
     (if startswith (platform e) ''linux'' then
        (case file_text e ''/proc/uptime'' of
           Inl m \<Rightarrow> (Inl (OSError m), w)
         | Inr text \<Rightarrow>
             (case py_split (readline text) of
                [] \<Rightarrow> (Inl IndexError, w)
              | tok # _ \<Rightarrow>
                  (case float_parse e tok of
                     None \<Rightarrow> (Inl ValueError, w)
                   | Some uptime_seconds \<Rightarrow> (Inr (Some (PyFloat uptime_seconds)), w))))
      else if startswith (platform e) ''darwin'' then
        (case CDLL e ''libc.dylib'' w of
           (Inl err, w1) \<Rightarrow> (Inl err, w1)
         | (Inr libc, w1) \<Rightarrow>
             (case sysctl_value e ''kern.boottime'' of
                Some boottime \<Rightarrow> (Inl (NameError ''time''), w1)
              | None \<Rightarrow> (Inr None, w1)))
      else if startswith (platform e) ''win32'' then (Inl (NameError ''time''), w)
      else (Inr None, w))"

text \<open>
  The loop of \<open>get_free_memory\<close> over the lines of \<open>/proc/meminfo\<close>: the first line that
  starts with \<open>MemAvailable:\<close> decides; falling off the loop returns \<open>None\<close>.
\<close>

fun meminfo_scan :: "string list \<Rightarrow> py_error + int option" where
  "meminfo_scan [] = Inr None"
| "meminfo_scan (line # rest) =
     (if startswith line ''MemAvailable:'' then
        (case py_split line of
           _ # v # _ \<Rightarrow> (case py_int_str v of
                          Inl err \<Rightarrow> Inl err
                        | Inr kb \<Rightarrow> Inr (Some (kb * 1024)))
         | _ \<Rightarrow> Inl IndexError)
      else meminfo_scan rest)"

text \<open>
  \<open>XSleep.get_free_memory\<close>. \<open>vm_statistics\<close> and \<open>MEMORYSTATUSEX\<close> are defined nowhere
  in the module: the Darwin branch raises NameError once the library is loaded, the
  Windows branch when it builds \<open>argtypes\<close>.
\<close>

definition get_free_memory :: "env \<Rightarrow> world \<Rightarrow> (py_error + int option) \<times> world" where
  "get_free_memory e w =
     (if startswith (platform e) ''linux'' then
        (case file_text e ''/proc/meminfo'' of
           Inl m \<Rightarrow> (Inl (OSError m), w)
         | Inr text \<Rightarrow> (meminfo_scan (file_lines text), w))
      else if startswith (platform e) ''darwin'' then
        (case CDLL e ''libc.dylib'' w of
           (Inl err, w1) \<Rightarrow> (Inl err, w1)
         | (Inr libc, w1) \<Rightarrow> (Inl (NameError ''vm_statistics''), w1))
      else if startswith (platform e) ''win32'' then (Inl (NameError ''MEMORYSTATUSEX''), w)
      else (Inr None, w))"

text \<open>\<open>XSleep.get_username\<close>: \<open>os.environ.get\<close> gives \<open>None\<close> for an unset variable.\<close>

definition get_username :: "env \<Rightarrow> string option" where
  "get_username e =
     (if startswith (platform e) ''win32'' then environ e ''USERNAME''
      else environ e ''USER'')"

section \<open>Example hosts\<close>

text \<open>
  Concrete hosts on which the statements below are evaluated. Their \<open>float_repr\<close> and
  \<open>float_parse\<close> are stand-ins: no statement evaluated on these hosts depends on them.
\<close>

definition world0 :: world where
  "world0 = \<lparr>stdout = [], dl_loads = [], native_sleeps = [], c_sleep_args = []\<rparr>"

text \<open>A Linux host whose C library loads and where \<open>/proc\<close> is not mounted.\<close>

definition linux_host :: env where
  "linux_host =
     \<lparr>platform = ''linux'',
      environ = [''USER'' \<mapsto> ''alice''],
      dlopen_error = (\<lambda>name. if name = ''libc.so.6'' then None
                              else Some (name @ '': cannot open shared object file'')),
      file_text = (\<lambda>path. Inl (''No such file or directory: '' @ path)),
      sysctl_value = (\<lambda>name. None),
      float_repr = (\<lambda>r. ''<float>''),
      float_parse = (\<lambda>s. None)\<rparr>"

text \<open>A Linux host on which no C library can be loaded under either name.\<close>

definition linux_host_no_libc :: env where
  "linux_host_no_libc =
     linux_host\<lparr>dlopen_error := (\<lambda>name. Some (name @ '': cannot open shared object file''))\<rparr>"

definition windows_host :: env where
  "windows_host = linux_host\<lparr>platform := ''win32'', environ := [''USERNAME'' \<mapsto> ''alice'']\<rparr>"

definition freebsd_host :: env where
  "freebsd_host = linux_host\<lparr>platform := ''freebsd13''\<rparr>"

text \<open>A Darwin host whose C library loads and where \<open>sysctlbyname\<close> fails.\<close>

definition darwin_host :: env where
  "darwin_host =
     linux_host\<lparr>platform := ''darwin'',
                dlopen_error := (\<lambda>name. if name = ''libc.dylib'' then None
                                         else Some (name @ '': image not found''))\<rparr>"

text \<open>
  A Linux host whose \<open>/proc/cpuinfo\<close> is readable and has no line that starts with
  \<open>processor\<close>.
\<close>

definition linux_host_armv6 :: env where
  "linux_host_armv6 =
     linux_host\<lparr>file_text := (\<lambda>path.
        if path = ''/proc/cpuinfo''
        then Inr (''Processor : ARMv6-compatible processor rev 7 (v6l)'' @ [newline]
                  @ ''BogoMIPS : 697.95'' @ [newline])
        else Inl (''No such file or directory: '' @ path))\<rparr>"

text \<open>A Darwin host on which no C library can be loaded under either name.\<close>

definition darwin_host_no_libc :: env where
  "darwin_host_no_libc =
     darwin_host\<lparr>dlopen_error := (\<lambda>name. Some (name @ '': image not found''))\<rparr>"

text \<open>The object that \<open>XSleep()\<close> builds on \<open>linux_host\<close>.\<close>

definition linux_bound :: xsleep where
  "linux_bound = \<lparr>sleep_func = Libc_usleep (Lib ''libc.so.6''), sleep_unit = 1000000\<rparr>"

text \<open>The object that \<open>XSleep()\<close> builds on \<open>windows_host\<close>.\<close>

definition windows_bound :: xsleep where
  "windows_bound = \<lparr>sleep_func = Kernel32_Sleep, sleep_unit = 1000\<rparr>"

section \<open>Platform prefixes\<close>

lemma startswith_same_head:
  "startswith p (a # as) \<Longrightarrow> startswith p (b # bs) \<Longrightarrow> a = b"
  by (cases p) (auto simp: startswith_def)

lemma get_sleep_func_win32:
  "startswith (platform e) ''win32'' \<Longrightarrow> get_sleep_func e w = (Inr (Kernel32_Sleep, 1000), w)"
  by (simp add: get_sleep_func_def)

lemma not_win32:
  "startswith p ''linux'' \<or> startswith p ''darwin'' \<Longrightarrow> \<not> startswith p ''win32''"
  using startswith_same_head by fastforce

lemma get_sleep_func_unsupported:
  "\<not> startswith (platform e) ''win32'' \<Longrightarrow> \<not> startswith (platform e) ''linux'' \<Longrightarrow>
   \<not> startswith (platform e) ''darwin'' \<Longrightarrow>
   get_sleep_func e w = (Inl (OSError ''Unsupported operating system.''), w)"
  by (simp add: get_sleep_func_def)

lemma get_sleep_func_posix:
  assumes "startswith (platform e) ''linux'' \<or> startswith (platform e) ''darwin''"
    and "n = (if startswith (platform e) ''darwin'' then ''libc.dylib'' else ''libc.so.6'')"
  shows "get_sleep_func e w =
     (case dlopen_error e n of
        None \<Rightarrow> (Inr (Libc_usleep (Lib n), 1000000), w\<lparr>dl_loads := dl_loads w @ [n]\<rparr>)
      | Some m \<Rightarrow>
          (case dlopen_error e ''/usr/lib/libc.dylib'' of
             None \<Rightarrow> (Inr (Libc_usleep (Lib ''/usr/lib/libc.dylib''), 1000000),
                       w\<lparr>dl_loads := dl_loads w @ [n, ''/usr/lib/libc.dylib'']\<rparr>)
           | Some m2 \<Rightarrow> (Inl (OSError m2), w\<lparr>dl_loads := dl_loads w @ [n, ''/usr/lib/libc.dylib'']\<rparr>)))"
  using assms not_win32[of "platform e"]
  by (auto simp: get_sleep_func_def CDLL_def Let_def split: option.splits)

section \<open>Binding\<close>

text \<open>
  Claim C1. Constructing an \<open>XSleep\<close> on a host whose platform starts with \<open>win32\<close>
  gives the unit 1000 (milliseconds). On a host whose platform starts with \<open>linux\<close> or
  \<open>darwin\<close> every object that is built has the unit 1000000 (microseconds), and one is
  built whenever the C library loads under its first name or under the fallback name.
  On every other platform construction raises and leaves the world untouched.
\<close>

theorem bind_sleep_unit_table:
  "(startswith (platform e) ''win32'' \<longrightarrow>
      fst (XSleep_init e w) = Inr \<lparr>sleep_func = Kernel32_Sleep, sleep_unit = 1000\<rparr>)
   \<and> (startswith (platform e) ''linux'' \<or> startswith (platform e) ''darwin'' \<longrightarrow>
        (\<forall>b. fst (XSleep_init e w) = Inr b \<longrightarrow> sleep_unit b = 1000000)
        \<and> (dlopen_error e (if startswith (platform e) ''darwin'' then ''libc.dylib'' else ''libc.so.6'') = None
            \<or> dlopen_error e ''/usr/lib/libc.dylib'' = None \<longrightarrow>
            (\<exists>l. fst (XSleep_init e w) = Inr \<lparr>sleep_func = Libc_usleep l, sleep_unit = 1000000\<rparr>)))
   \<and> (\<not> startswith (platform e) ''win32'' \<and> \<not> startswith (platform e) ''linux''
        \<and> \<not> startswith (platform e) ''darwin'' \<longrightarrow>
        XSleep_init e w = (Inl (OSError ''Unsupported operating system.''), w))"
proof (intro conjI impI)
  assume "startswith (platform e) ''win32''"
  then show "fst (XSleep_init e w) = Inr \<lparr>sleep_func = Kernel32_Sleep, sleep_unit = 1000\<rparr>"
    by (simp add: XSleep_init_def get_sleep_func_win32)
next
  assume p: "startswith (platform e) ''linux'' \<or> startswith (platform e) ''darwin''"
  show "\<forall>b. fst (XSleep_init e w) = Inr b \<longrightarrow> sleep_unit b = 1000000"
    by (auto simp: XSleep_init_def get_sleep_func_posix[OF p refl] split: option.splits)
next
  assume p: "startswith (platform e) ''linux'' \<or> startswith (platform e) ''darwin''"
  define n where "n = (if startswith (platform e) ''darwin'' then ''libc.dylib'' else ''libc.so.6'')"
  assume "dlopen_error e (if startswith (platform e) ''darwin'' then ''libc.dylib'' else ''libc.so.6'') = None
            \<or> dlopen_error e ''/usr/lib/libc.dylib'' = None"
  then have "dlopen_error e n = None \<or> dlopen_error e ''/usr/lib/libc.dylib'' = None"
    by (simp add: n_def)
  then show "\<exists>l. fst (XSleep_init e w) = Inr \<lparr>sleep_func = Libc_usleep l, sleep_unit = 1000000\<rparr>"
    by (auto simp: XSleep_init_def get_sleep_func_posix[OF p n_def] split: option.splits)
next
  assume "\<not> startswith (platform e) ''win32'' \<and> \<not> startswith (platform e) ''linux''
        \<and> \<not> startswith (platform e) ''darwin''"
  then show "XSleep_init e w = (Inl (OSError ''Unsupported operating system.''), w)"
    by (simp add: XSleep_init_def get_sleep_func_unsupported)
qed

theorem bind_sleep_unit_table_witness:
  "fst (XSleep_init windows_host world0) = Inr \<lparr>sleep_func = Kernel32_Sleep, sleep_unit = 1000\<rparr>
   \<and> sleep_unit \<lparr>sleep_func = Libc_usleep (Lib ''libc.so.6''), sleep_unit = 1000000\<rparr> = 1000000
   \<and> XSleep_init freebsd_host world0 = (Inl (OSError ''Unsupported operating system.''), world0)"
proof -
  have win: "startswith (platform windows_host) ''win32''"
    by (simp add: windows_host_def linux_host_def startswith_def)
  have lin: "startswith (platform linux_host) ''linux'' \<or> startswith (platform linux_host) ''darwin''"
    by (simp add: linux_host_def startswith_def)
  have bound: "fst (XSleep_init linux_host world0)
                 = Inr \<lparr>sleep_func = Libc_usleep (Lib ''libc.so.6''), sleep_unit = 1000000\<rparr>"
    by (simp add: XSleep_init_def get_sleep_func_def CDLL_def Let_def linux_host_def startswith_def)
  have other: "\<not> startswith (platform freebsd_host) ''win32''
      \<and> \<not> startswith (platform freebsd_host) ''linux''
      \<and> \<not> startswith (platform freebsd_host) ''darwin''"
    by (simp add: freebsd_host_def linux_host_def startswith_def)
  from bind_sleep_unit_table [of windows_host world0] win
  have 1: "fst (XSleep_init windows_host world0) = Inr \<lparr>sleep_func = Kernel32_Sleep, sleep_unit = 1000\<rparr>"
    by blast
  from bind_sleep_unit_table [of linux_host world0] lin bound
  have 2: "sleep_unit \<lparr>sleep_func = Libc_usleep (Lib ''libc.so.6''), sleep_unit = 1000000\<rparr> = 1000000"
    by blast
  from bind_sleep_unit_table [of freebsd_host world0] other
  have 3: "XSleep_init freebsd_host world0 = (Inl (OSError ''Unsupported operating system.''), world0)"
    by blast
  from 1 2 3 show ?thesis by blast
qed

text \<open>
  Claim C8, as the code has it. On an unsupported platform the error raised is
  \<open>OSError\<close> with one fixed message, whatever the platform identifier is.
\<close>

theorem unsupported_error_is_constant:
  assumes "\<not> startswith (platform e) ''win32''" and "\<not> startswith (platform e) ''linux''"
    and "\<not> startswith (platform e) ''darwin''"
  shows "fst (get_sleep_func e w) = Inl (OSError ''Unsupported operating system.'')"
  using assms by (simp add: get_sleep_func_unsupported)

theorem unsupported_error_is_constant_witness:
  "\<not> startswith (platform freebsd_host) ''win32'' \<and> \<not> startswith (platform freebsd_host) ''linux''
   \<and> \<not> startswith (platform freebsd_host) ''darwin''
   \<and> fst (get_sleep_func freebsd_host world0) = Inl (OSError ''Unsupported operating system.'')"
proof -
  have a: "\<not> startswith (platform freebsd_host) ''win32''"
    and b: "\<not> startswith (platform freebsd_host) ''linux''"
    and c: "\<not> startswith (platform freebsd_host) ''darwin''"
    by (simp_all add: freebsd_host_def linux_host_def startswith_def)
  from unsupported_error_is_constant [OF a b c, of world0] a b c show ?thesis by simp
qed

text \<open>
  Claim C8 as stated fails: on \<open>freebsd13\<close> the message of the error does not contain
  the platform identifier.
\<close>

theorem unsupported_error_omits_platform:
  "fst (get_sleep_func freebsd_host world0) = Inl (OSError ''Unsupported operating system.'')
   \<and> \<not> contains ''Unsupported operating system.'' (platform freebsd_host)"
  by (simp add: get_sleep_func_def freebsd_host_def linux_host_def startswith_def)

text \<open>
  Claim C10. On Linux, when loading \<open>libc.so.6\<close> raises \<open>OSError\<close>, the binding goes on
  to load \<open>/usr/lib/libc.dylib\<close>, as it does on Darwin when loading \<open>libc.dylib\<close> raises;
  when the second load fails too, the error that reaches the caller is the loader's
  \<open>OSError\<close> of this second load.
\<close>

theorem linux_falls_back_to_dylib_path:
  "(startswith (platform e) ''linux'' \<and> dlopen_error e ''libc.so.6'' = Some m \<longrightarrow>
      dl_loads (snd (get_sleep_func e w)) = dl_loads w @ [''libc.so.6'', ''/usr/lib/libc.dylib'']
      \<and> fst (get_sleep_func e w) =
           (case dlopen_error e ''/usr/lib/libc.dylib'' of
              Some m2 \<Rightarrow> Inl (OSError m2)
            | None \<Rightarrow> Inr (Libc_usleep (Lib ''/usr/lib/libc.dylib''), 1000000)))
   \<and> (startswith (platform e) ''darwin'' \<and> dlopen_error e ''libc.dylib'' = Some m \<longrightarrow>
      dl_loads (snd (get_sleep_func e w)) = dl_loads w @ [''libc.dylib'', ''/usr/lib/libc.dylib'']
      \<and> fst (get_sleep_func e w) =
           (case dlopen_error e ''/usr/lib/libc.dylib'' of
              Some m2 \<Rightarrow> Inl (OSError m2)
            | None \<Rightarrow> Inr (Libc_usleep (Lib ''/usr/lib/libc.dylib''), 1000000)))"
proof (intro conjI impI)
  assume h: "startswith (platform e) ''linux'' \<and> dlopen_error e ''libc.so.6'' = Some m"
  have d: "\<not> startswith (platform e) ''darwin''"
    using h startswith_same_head by fastforce
  have p: "startswith (platform e) ''linux'' \<or> startswith (platform e) ''darwin''"
    using h by simp
  have n: "''libc.so.6'' = (if startswith (platform e) ''darwin'' then ''libc.dylib'' else ''libc.so.6'')"
    using d by simp
  show "dl_loads (snd (get_sleep_func e w)) = dl_loads w @ [''libc.so.6'', ''/usr/lib/libc.dylib'']"
    using h by (simp add: get_sleep_func_posix[OF p n] split: option.splits)
  show "fst (get_sleep_func e w) =
           (case dlopen_error e ''/usr/lib/libc.dylib'' of
              Some m2 \<Rightarrow> Inl (OSError m2)
            | None \<Rightarrow> Inr (Libc_usleep (Lib ''/usr/lib/libc.dylib''), 1000000))"
    using h by (simp add: get_sleep_func_posix[OF p n] split: option.splits)
next
  assume h: "startswith (platform e) ''darwin'' \<and> dlopen_error e ''libc.dylib'' = Some m"
  have p: "startswith (platform e) ''linux'' \<or> startswith (platform e) ''darwin''"
    using h by simp
  have n: "''libc.dylib'' = (if startswith (platform e) ''darwin'' then ''libc.dylib'' else ''libc.so.6'')"
    using h by simp
  show "dl_loads (snd (get_sleep_func e w)) = dl_loads w @ [''libc.dylib'', ''/usr/lib/libc.dylib'']"
    using h by (simp add: get_sleep_func_posix[OF p n] split: option.splits)
  show "fst (get_sleep_func e w) =
           (case dlopen_error e ''/usr/lib/libc.dylib'' of
              Some m2 \<Rightarrow> Inl (OSError m2)
            | None \<Rightarrow> Inr (Libc_usleep (Lib ''/usr/lib/libc.dylib''), 1000000))"
    using h by (simp add: get_sleep_func_posix[OF p n] split: option.splits)
qed

theorem linux_falls_back_to_dylib_path_witness:
  "startswith (platform linux_host_no_libc) ''linux''
   \<and> dlopen_error linux_host_no_libc ''libc.so.6'' = Some ''libc.so.6: cannot open shared object file''
   \<and> dl_loads (snd (get_sleep_func linux_host_no_libc world0)) = [''libc.so.6'', ''/usr/lib/libc.dylib'']
   \<and> fst (get_sleep_func linux_host_no_libc world0)
       = Inl (OSError ''/usr/lib/libc.dylib: cannot open shared object file'')
   \<and> startswith (platform darwin_host_no_libc) ''darwin''
   \<and> dlopen_error darwin_host_no_libc ''libc.dylib'' = Some ''libc.dylib: image not found''
   \<and> dl_loads (snd (get_sleep_func darwin_host_no_libc world0)) = [''libc.dylib'', ''/usr/lib/libc.dylib'']
   \<and> fst (get_sleep_func darwin_host_no_libc world0)
       = Inl (OSError ''/usr/lib/libc.dylib: image not found'')"
proof -
  have a: "startswith (platform linux_host_no_libc) ''linux''"
    by (simp add: linux_host_no_libc_def linux_host_def startswith_def)
  have b: "dlopen_error linux_host_no_libc ''libc.so.6'' = Some ''libc.so.6: cannot open shared object file''"
    by (simp add: linux_host_no_libc_def linux_host_def)
  have f: "dlopen_error linux_host_no_libc ''/usr/lib/libc.dylib''
             = Some ''/usr/lib/libc.dylib: cannot open shared object file''"
    by (simp add: linux_host_no_libc_def linux_host_def)
  from linux_falls_back_to_dylib_path
         [of linux_host_no_libc "''libc.so.6: cannot open shared object file''" world0] a b
  have lin: "dl_loads (snd (get_sleep_func linux_host_no_libc world0))
               = [''libc.so.6'', ''/usr/lib/libc.dylib'']
      \<and> fst (get_sleep_func linux_host_no_libc world0)
               = Inl (OSError ''/usr/lib/libc.dylib: cannot open shared object file'')"
    by (simp add: f world0_def)
  have a': "startswith (platform darwin_host_no_libc) ''darwin''"
    by (simp add: darwin_host_no_libc_def darwin_host_def linux_host_def startswith_def)
  have b': "dlopen_error darwin_host_no_libc ''libc.dylib'' = Some ''libc.dylib: image not found''"
    by (simp add: darwin_host_no_libc_def darwin_host_def linux_host_def)
  have f': "dlopen_error darwin_host_no_libc ''/usr/lib/libc.dylib''
             = Some ''/usr/lib/libc.dylib: image not found''"
    by (simp add: darwin_host_no_libc_def darwin_host_def linux_host_def)
  from linux_falls_back_to_dylib_path
         [of darwin_host_no_libc "''libc.dylib: image not found''" world0] a' b'
  have dar: "dl_loads (snd (get_sleep_func darwin_host_no_libc world0))
               = [''libc.dylib'', ''/usr/lib/libc.dylib'']
      \<and> fst (get_sleep_func darwin_host_no_libc world0)
               = Inl (OSError ''/usr/lib/libc.dylib: image not found'')"
    by (simp add: f' world0_def)
  from a b lin a' b' dar show ?thesis by blast
qed

section \<open>Rounding of the constants used\<close>

lemma floor_numeral_div: "\<lfloor>numeral a / numeral b :: rat\<rfloor> = numeral a div numeral b"
  by (metis floor_divide_of_int_eq of_int_numeral)

lemma ceiling_numeral_div: "\<lceil>numeral a / numeral b :: rat\<rceil> = - (- numeral a div numeral b)"
  by (metis ceiling_def floor_divide_of_int_eq of_int_numeral of_int_minus minus_divide_left)

lemmas round_eval = double_exp_def double_mant_def floor_log2_def pow2_def
  round_half_even_def log2_nat.simps floor_numeral_div ceiling_numeral_div

lemma round_1: "round_to_double 1 = Finite 1"
  by (simp add: round_to_double_def) (simp add: round_eval)



lemma round_60: "round_to_double 60 = Finite 60"
  by (simp add: round_to_double_def) (simp add: round_eval)

lemma round_3600: "round_to_double 3600 = Finite 3600"
  by (simp add: round_to_double_def) (simp add: round_eval)

lemma round_1000: "round_to_double 1000 = Finite 1000"
  by (simp add: round_to_double_def) (simp add: round_eval)

lemma round_1000000: "round_to_double 1000000 = Finite 1000000"
  by (simp add: round_to_double_def) (simp add: round_eval)






section \<open>The internal sleep\<close>

lemma int_to_float_0: "int_to_float 0 = Inr (Finite 0)"
  by (simp add: int_to_float_def round_to_double_def is_inf_def)

lemma int_to_float_1: "int_to_float 1 = Inr (Finite 1)"
  using round_1 by (simp add: int_to_float_def is_inf_def)



lemma int_to_float_60: "int_to_float 60 = Inr (Finite 60)"
  using round_60 by (simp add: int_to_float_def is_inf_def)

lemma int_to_float_3600: "int_to_float 3600 = Inr (Finite 3600)"
  using round_3600 by (simp add: int_to_float_def is_inf_def)

lemma int_to_float_1000: "int_to_float 1000 = Inr (Finite 1000)"
  using round_1000 by (simp add: int_to_float_def is_inf_def)

lemma int_to_float_1000000: "int_to_float 1000000 = Inr (Finite 1000000)"
  using round_1000000 by (simp add: int_to_float_def is_inf_def)

lemma int_to_float_unit:
  "sleep_unit self = 1000 \<or> sleep_unit self = 1000000 \<Longrightarrow>
   int_to_float (sleep_unit self) = Inr (Finite (of_int (sleep_unit self)))"
  using int_to_float_1000 int_to_float_1000000 by auto

lemma sleep_body_stdout:
  "stdout (sleep_body e self s t w) =
     stdout w @ sleeping_message e self s t @ [newline] @ ''Awake!'' @ [newline]"
  by (simp add: sleep_body_def py_print_def call_sleep_func_def)

lemma sleep_body_native:
  "native_sleeps (sleep_body e self s t w) = native_sleeps w @ [(sleep_func self, t)]"
  by (simp add: sleep_body_def py_print_def call_sleep_func_def)

lemma sleep_body_c_args:
  "c_sleep_args (sleep_body e self s t w) = c_sleep_args w @ [t mod 2 ^ 32]"
  by (simp add: sleep_body_def py_print_def call_sleep_func_def)

lemma XSleep_sleep_int:
  "XSleep_sleep e self (PyInt i) w = (Inr (), sleep_body e self (PyInt i) (i * sleep_unit self) w)"
  by (simp add: XSleep_sleep_def)

lemma XSleep_sleep_float:
  assumes "sleep_unit self = 1000 \<or> sleep_unit self = 1000000"
  shows "XSleep_sleep e self (PyFloat x) w =
     (case py_int (PyFloat (fmul x (Finite (of_int (sleep_unit self))))) of
        Inl err \<Rightarrow> (Inl err, w)
      | Inr t \<Rightarrow> (Inr (), sleep_body e self (PyFloat x) t w))"
  by (simp add: XSleep_sleep_def float_op_def int_to_float_unit [OF assms])







section \<open>The unit wrappers\<close>

lemma py_mul_60: "float_op fmul (PyFloat x) (PyInt 60) = Inr (PyFloat (fmul x (Finite 60)))"
  by (simp add: float_op_def int_to_float_60)

lemma py_mul_3600: "float_op fmul (PyFloat x) (PyInt 3600) = Inr (PyFloat (fmul x (Finite 3600)))"
  by (simp add: float_op_def int_to_float_3600)

lemma fmul_1_60: "fmul (Finite 1) (Finite 60) = Finite 60"
  using round_60 by (simp add: fmul_def is_inf_def is_zero_def)

lemma fdiv_1000:
  "fdiv (Finite r) (Finite 1000) = Inr (if r = 0 then Finite 0 else round_to_double (r / 1000))"
  by (simp add: fdiv_def is_inf_def is_zero_def signed_zero_def)

text \<open>
  Claim C6. Each wrapper is one call of \<open>_sleep\<close> with the duration converted to
  seconds: \<open>ms / 1000\<close>, \<open>secs\<close>, \<open>mins * 60\<close>, \<open>hrs * 3600\<close>, computed as Python computes
  them (for a \<open>float\<close>, the rounded float quotient or product). \<open>minutes(1)\<close> and
  \<open>seconds(60)\<close> are the same call, and hand \<open>60 * sleep_unit\<close> to the bound function.
\<close>

theorem unit_wrappers_delegate:
  "milliseconds e self v w =
     (case py_truediv v (PyInt 1000) of
        Inl err \<Rightarrow> (Inl err, w)
      | Inr secs \<Rightarrow> XSleep_sleep e self secs w)
   \<and> milliseconds e self (PyFloat (Finite r)) w =
       XSleep_sleep e self (PyFloat (if r = 0 then Finite 0 else round_to_double (r / 1000))) w
   \<and> seconds e self v w = XSleep_sleep e self v w
   \<and> minutes e self (PyFloat x) w = XSleep_sleep e self (PyFloat (fmul x (Finite 60))) w
   \<and> minutes e self (PyInt i) w = XSleep_sleep e self (PyInt (i * 60)) w
   \<and> hours e self (PyFloat x) w = XSleep_sleep e self (PyFloat (fmul x (Finite 3600))) w
   \<and> hours e self (PyInt i) w = XSleep_sleep e self (PyInt (i * 3600)) w
   \<and> minutes e self (PyInt 1) w = seconds e self (PyInt 60) w
   \<and> minutes e self (PyFloat (Finite 1)) w = seconds e self (PyFloat (Finite 60)) w
   \<and> native_sleeps (snd (minutes e self (PyInt 1) w))
       = native_sleeps w @ [(sleep_func self, 60 * sleep_unit self)]
   \<and> native_sleeps (snd (seconds e self (PyInt 60) w))
       = native_sleeps w @ [(sleep_func self, 60 * sleep_unit self)]"
  by (simp add: milliseconds_def seconds_def minutes_def hours_def py_mul_60 py_mul_3600
      fmul_1_60 int_to_float_1000 fdiv_1000 XSleep_sleep_int sleep_body_native)

section \<open>The randomized sleep\<close>

lemma uniform_1_1_int: "uniform (PyInt 1) (PyInt 1) u = Inr (PyFloat (Finite 1))"
  using round_1
  by (simp add: uniform_def float_op_def int_to_float_0 int_to_float_1 fmul_def fadd_def
      is_inf_def is_zero_def signed_zero_def)

lemma uniform_1_1_float:
  "uniform (PyFloat (Finite 1)) (PyFloat (Finite 1)) u = Inr (PyFloat (Finite 1))"
  using round_1
  by (simp add: uniform_def float_op_def fsub_def fmul_def fadd_def
      is_inf_def is_zero_def signed_zero_def)

lemma fmul_1_unit:
  "fmul (Finite 1) (Finite 1000) = Finite 1000" "fmul (Finite 1) (Finite 1000000) = Finite 1000000"
  using round_1000 round_1000000 by (simp_all add: fmul_def is_inf_def is_zero_def)

text \<open>
  Claim C7. With both bounds 1 the drawn duration is the float 1.0 whatever \<open>random()\<close>
  returns, and \<open>get_random_delay(1, 1)\<close> has the result and leaves the world of
  \<open>seconds(1.0)\<close>. Against \<open>seconds(1)\<close> with the \<open>int\<close> 1, on an object bound to the unit
  1000 or 1000000, the calls of the bound function and what the C function receives are
  the same.
\<close>

theorem random_delay_degenerate:
  "uniform (PyInt 1) (PyInt 1) u = Inr (PyFloat (Finite 1))
   \<and> uniform (PyFloat (Finite 1)) (PyFloat (Finite 1)) u = Inr (PyFloat (Finite 1))
   \<and> get_random_delay e self (PyInt 1) (PyInt 1) u w = seconds e self (PyFloat (Finite 1)) w
   \<and> get_random_delay e self (PyFloat (Finite 1)) (PyFloat (Finite 1)) u w
       = seconds e self (PyFloat (Finite 1)) w
   \<and> (sleep_unit self = 1000 \<or> sleep_unit self = 1000000 \<longrightarrow>
        native_sleeps (snd (get_random_delay e self (PyInt 1) (PyInt 1) u w))
          = native_sleeps (snd (seconds e self (PyInt 1) w))
        \<and> c_sleep_args (snd (get_random_delay e self (PyInt 1) (PyInt 1) u w))
          = c_sleep_args (snd (seconds e self (PyInt 1) w)))"
proof -
  have eq: "get_random_delay e self (PyInt 1) (PyInt 1) u w = seconds e self (PyFloat (Finite 1)) w"
    by (simp add: get_random_delay_def seconds_def uniform_1_1_int)
  have eq': "get_random_delay e self (PyFloat (Finite 1)) (PyFloat (Finite 1)) u w
       = seconds e self (PyFloat (Finite 1)) w"
    by (simp add: get_random_delay_def seconds_def uniform_1_1_float)
  have nat: "native_sleeps (snd (seconds e self (PyFloat (Finite 1)) w))
          = native_sleeps (snd (seconds e self (PyInt 1) w))
        \<and> c_sleep_args (snd (seconds e self (PyFloat (Finite 1)) w))
          = c_sleep_args (snd (seconds e self (PyInt 1) w))"
    if h: "sleep_unit self = 1000 \<or> sleep_unit self = 1000000"
    using h
    by (auto simp: seconds_def XSleep_sleep_float [OF h] XSleep_sleep_int fmul_1_unit
        sleep_body_native sleep_body_c_args trunc_def)
  show ?thesis
    using eq eq' nat by (simp add: uniform_1_1_int uniform_1_1_float)
qed

theorem random_delay_degenerate_witness:
  "(sleep_unit linux_bound = 1000 \<or> sleep_unit linux_bound = 1000000)
   \<and> native_sleeps (snd (get_random_delay linux_host linux_bound (PyInt 1) (PyInt 1) (1 / 4) world0))
       = [(Libc_usleep (Lib ''libc.so.6''), 1000000)]
   \<and> native_sleeps (snd (seconds linux_host linux_bound (PyInt 1) world0))
       = [(Libc_usleep (Lib ''libc.so.6''), 1000000)]"
proof -
  have u: "sleep_unit linux_bound = 1000 \<or> sleep_unit linux_bound = 1000000"
    by (simp add: linux_bound_def)
  have s: "native_sleeps (snd (seconds linux_host linux_bound (PyInt 1) world0))
       = [(Libc_usleep (Lib ''libc.so.6''), 1000000)]"
    by (simp add: seconds_def XSleep_sleep_int sleep_body_native linux_bound_def world0_def)
  from random_delay_degenerate [where self = linux_bound and e = linux_host and u = "1 / 4"
      and w = world0] u
  have "native_sleeps (snd (get_random_delay linux_host linux_bound (PyInt 1) (PyInt 1) (1 / 4) world0))
       = native_sleeps (snd (seconds linux_host linux_bound (PyInt 1) world0))"
    by blast
  with u s show ?thesis by simp
qed












section \<open>Character-paced output\<close>

lemma print_chars_int_ok: "fst (print_chars e self msg (PyInt d) w) = Inr ()"
  by (induction msg arbitrary: w) (simp_all add: XSleep_sleep_int)

lemma print_chars_int_stdout:
  "stdout (snd (print_chars e self msg (PyInt d) w)) =
     stdout w @ concat (map (\<lambda>c. c # sleeping_message e self (PyInt d) (d * sleep_unit self)
                                  @ [newline] @ ''Awake!'' @ [newline]) msg)"
  by (induction msg arbitrary: w) (simp_all add: XSleep_sleep_int sleep_body_stdout py_print_def)

lemma print_chars_int_native:
  "native_sleeps (snd (print_chars e self msg (PyInt d) w)) =
     native_sleeps w @ replicate (length msg) (sleep_func self, d * sleep_unit self)"
  by (induction msg arbitrary: w)
     (simp_all add: XSleep_sleep_int sleep_body_native py_print_def replicate_append_same)

lemma print_chars_int_c_args:
  "c_sleep_args (snd (print_chars e self msg (PyInt d) w)) =
     c_sleep_args w @ replicate (length msg) ((d * sleep_unit self) mod 2 ^ 32)"
  by (induction msg arbitrary: w)
     (simp_all add: XSleep_sleep_int sleep_body_c_args py_print_def replicate_append_same)

lemma print_message_snd:
  "snd (print_message_with_delay e self msg (PyInt d) w)
     = py_print [] [newline] (snd (print_chars e self msg (PyInt d) w))"
  using print_chars_int_ok [of e self msg d w]
  by (cases "print_chars e self msg (PyInt d) w") (auto simp: print_message_with_delay_def)

lemma print_message_fst: "fst (print_message_with_delay e self msg (PyInt d) w) = Inr ()"
  using print_chars_int_ok [of e self msg d w]
  by (cases "print_chars e self msg (PyInt d) w") (auto simp: print_message_with_delay_def)

text \<open>
  Claim C3, as the code has it. \<open>print_message_with_delay("ab", 0)\<close> returns normally
  and writes \<open>a\<close>, then the two progress lines of \<open>_sleep\<close>, then \<open>b\<close>, then the two
  progress lines again, then a line feed; the bound function is called twice with 0.
\<close>

theorem print_ab_interleaves_progress_lines:
  "fst (print_message_with_delay e self ''ab'' (PyInt 0) w) = Inr ()
   \<and> stdout (snd (print_message_with_delay e self ''ab'' (PyInt 0) w)) =
     stdout w
     @ ''a'' @ ''Sleeping for 0 seconds (0 ''
     @ (if sleep_unit self = 1000 then ''milliseconds'' else ''microseconds'') @ '')...''
     @ [newline] @ ''Awake!'' @ [newline]
     @ ''b'' @ ''Sleeping for 0 seconds (0 ''
     @ (if sleep_unit self = 1000 then ''milliseconds'' else ''microseconds'') @ '')...''
     @ [newline] @ ''Awake!'' @ [newline]
     @ [newline]
   \<and> native_sleeps (snd (print_message_with_delay e self ''ab'' (PyInt 0) w)) =
     native_sleeps w @ [(sleep_func self, 0), (sleep_func self, 0)]
   \<and> c_sleep_args (snd (print_message_with_delay e self ''ab'' (PyInt 0) w)) =
     c_sleep_args w @ [0, 0]"
proof -
  have m: "sleeping_message e self (PyInt 0) 0 =
      ''Sleeping for 0 seconds (0 ''
      @ (if sleep_unit self = 1000 then ''milliseconds'' else ''microseconds'') @ '')...''"
    by (simp add: sleeping_message_def py_str_def str_int_def str_nat.simps digit_char_def)
  have out: "stdout (snd (print_message_with_delay e self ''ab'' (PyInt 0) w)) =
      stdout w
      @ ''a'' @ sleeping_message e self (PyInt 0) 0 @ [newline] @ ''Awake!'' @ [newline]
      @ ''b'' @ sleeping_message e self (PyInt 0) 0 @ [newline] @ ''Awake!'' @ [newline]
      @ [newline]"
    by (simp add: print_message_snd py_print_def print_chars_int_stdout del: print_chars.simps)
  have calls: "native_sleeps (snd (print_message_with_delay e self ''ab'' (PyInt 0) w)) =
      native_sleeps w @ [(sleep_func self, 0), (sleep_func self, 0)]"
    by (simp add: print_message_snd py_print_def print_chars_int_native del: print_chars.simps)
  have args: "c_sleep_args (snd (print_message_with_delay e self ''ab'' (PyInt 0) w)) =
      c_sleep_args w @ [0, 0]"
    by (simp add: print_message_snd py_print_def print_chars_int_c_args del: print_chars.simps)
  from out calls args show ?thesis
    unfolding m by (simp add: print_message_fst)
qed

text \<open>
  Claim C3 as stated fails: on the Linux binding the characters written are not just
  \<open>ab\<close>.
\<close>

theorem print_ab_writes_more_than_ab:
  "stdout (snd (print_message_with_delay linux_host linux_bound ''ab'' (PyInt 0) world0)) =
     ''aSleeping for 0 seconds (0 microseconds)...'' @ [newline] @ ''Awake!'' @ [newline]
     @ ''bSleeping for 0 seconds (0 microseconds)...'' @ [newline] @ ''Awake!'' @ [newline]
     @ [newline]
   \<and> stdout (snd (print_message_with_delay linux_host linux_bound ''ab'' (PyInt 0) world0)) \<noteq> ''ab''"
  by (simp add: print_message_snd py_print_def print_chars_int_stdout
      sleeping_message_def py_str_def str_int_def str_nat.simps digit_char_def linux_bound_def
      world0_def del: print_chars.simps)

section \<open>Queries that raise or report zero\<close>

text \<open>The platform prefixes exclude each other, so each query takes one branch.\<close>

lemma win32_only:
  "startswith p ''win32'' \<Longrightarrow> \<not> startswith p ''linux'' \<and> \<not> startswith p ''darwin''"
  using startswith_same_head by fastforce

lemma linux_only:
  "startswith p ''linux'' \<Longrightarrow> \<not> startswith p ''win32'' \<and> \<not> startswith p ''darwin''"
  using startswith_same_head by fastforce

lemma darwin_only:
  "startswith p ''darwin'' \<Longrightarrow> \<not> startswith p ''win32'' \<and> \<not> startswith p ''linux''"
  using startswith_same_head by fastforce

text \<open>On every Windows host \<open>get_uptime\<close> and \<open>get_free_memory\<close> raise NameError.\<close>

lemma get_uptime_win32:
  "startswith (platform e) ''win32'' \<Longrightarrow> get_uptime e w = (Inl (NameError ''time''), w)"
  using win32_only [of "platform e"] by (simp add: get_uptime_def)

lemma get_free_memory_win32:
  "startswith (platform e) ''win32'' \<Longrightarrow>
   get_free_memory e w = (Inl (NameError ''MEMORYSTATUSEX''), w)"
  using win32_only [of "platform e"] by (simp add: get_free_memory_def)

text \<open>On every Darwin host where the library loads, \<open>get_free_memory\<close> raises NameError.\<close>

lemma get_free_memory_darwin:
  "startswith (platform e) ''darwin'' \<Longrightarrow> dlopen_error e ''libc.dylib'' = None \<Longrightarrow>
   fst (get_free_memory e w) = Inl (NameError ''vm_statistics'')"
  using darwin_only [of "platform e"] by (simp add: get_free_memory_def CDLL_def)

text \<open>On Linux the error of \<open>open\<close> reaches the caller of each \<open>/proc\<close> reader.\<close>

lemma get_uptime_linux_unreadable:
  "startswith (platform e) ''linux'' \<Longrightarrow> file_text e ''/proc/uptime'' = Inl m \<Longrightarrow>
   get_uptime e w = (Inl (OSError m), w)"
  by (simp add: get_uptime_def)

lemma get_free_memory_linux_unreadable:
  "startswith (platform e) ''linux'' \<Longrightarrow> file_text e ''/proc/meminfo'' = Inl m \<Longrightarrow>
   get_free_memory e w = (Inl (OSError m), w)"
  by (simp add: get_free_memory_def)

lemma get_cpu_count_linux_unreadable:
  "startswith (platform e) ''linux'' \<Longrightarrow> file_text e ''/proc/cpuinfo'' = Inl m \<Longrightarrow>
   get_cpu_count e w = (Inl (OSError m), w)"
  using linux_only [of "platform e"] by (simp add: get_cpu_count_def)

text \<open>On Darwin a failing \<open>sysctlbyname\<close> leaves the count at 0.\<close>

lemma get_cpu_count_darwin_sysctl_fails:
  "startswith (platform e) ''darwin'' \<Longrightarrow> dlopen_error e ''libc.dylib'' = None \<Longrightarrow>
   sysctl_value e ''hw.ncpu'' = None \<Longrightarrow> fst (get_cpu_count e w) = Inr 0"
  using darwin_only [of "platform e"] by (simp add: get_cpu_count_def CDLL_def)

text \<open>
  Claim C2 at failing inputs. \<open>get_uptime\<close> on Windows raises NameError for \<open>time\<close>;
  \<open>get_free_memory\<close> raises NameError on Windows and on Darwin; on a Linux host without
  \<open>/proc\<close> both raise the \<open>OSError\<close> of \<open>open\<close>.
\<close>

theorem queries_raise:
  "fst (get_uptime windows_host world0) = Inl (NameError ''time'')
   \<and> fst (get_free_memory windows_host world0) = Inl (NameError ''MEMORYSTATUSEX'')
   \<and> fst (get_free_memory darwin_host world0) = Inl (NameError ''vm_statistics'')
   \<and> fst (get_uptime linux_host world0)
       = Inl (OSError ''No such file or directory: /proc/uptime'')
   \<and> fst (get_free_memory linux_host world0)
       = Inl (OSError ''No such file or directory: /proc/meminfo'')"
proof -
  have win: "startswith (platform windows_host) ''win32''"
    by (simp add: windows_host_def linux_host_def startswith_def)
  have dar: "startswith (platform darwin_host) ''darwin''"
    and lib: "dlopen_error darwin_host ''libc.dylib'' = None"
    by (simp_all add: darwin_host_def linux_host_def startswith_def)
  have lin: "startswith (platform linux_host) ''linux''"
    and up: "file_text linux_host ''/proc/uptime'' = Inl ''No such file or directory: /proc/uptime''"
    and mem: "file_text linux_host ''/proc/meminfo'' = Inl ''No such file or directory: /proc/meminfo''"
    by (simp_all add: linux_host_def startswith_def)
  show ?thesis
    by (simp add: get_uptime_win32 [OF win] get_free_memory_win32 [OF win]
        get_free_memory_darwin [OF dar lib] get_uptime_linux_unreadable [OF lin up]
        get_free_memory_linux_unreadable [OF lin mem])
qed

text \<open>
  Claim C5 at failing inputs. On a Linux host without \<open>/proc\<close>, \<open>get_cpu_count\<close> raises
  instead of returning 1; where \<open>/proc/cpuinfo\<close> has no \<open>processor\<close> line, and on Darwin
  where \<open>sysctlbyname\<close> fails, it returns 0.
\<close>

theorem cpu_count_without_default:
  "fst (get_cpu_count linux_host world0)
     = Inl (OSError ''No such file or directory: /proc/cpuinfo'')
   \<and> fst (get_cpu_count linux_host_armv6 world0) = Inr 0
   \<and> fst (get_cpu_count darwin_host world0) = Inr 0"
proof -
  have lin: "startswith (platform linux_host) ''linux''"
    and cpu: "file_text linux_host ''/proc/cpuinfo'' = Inl ''No such file or directory: /proc/cpuinfo''"
    by (simp_all add: linux_host_def startswith_def)
  have dar: "startswith (platform darwin_host) ''darwin''"
    and lib: "dlopen_error darwin_host ''libc.dylib'' = None"
    and ctl: "sysctl_value darwin_host ''hw.ncpu'' = None"
    by (simp_all add: darwin_host_def linux_host_def startswith_def)
  have arm: "fst (get_cpu_count linux_host_armv6 world0) = Inr 0"
    by (simp add: get_cpu_count_def linux_host_armv6_def linux_host_def startswith_def
        file_lines_def py_strip_def is_space_def newline_def)
  show ?thesis
    by (simp add: get_cpu_count_linux_unreadable [OF lin cpu]
        get_cpu_count_darwin_sysctl_fails [OF dar lib ctl] arm)
qed

end

